theory Spec2Isabelle
  imports Complex_Main
begin

section \<open>The crop recommendation API bridge (ml/api_bridge.py)\<close>

text \<open>
  The bridge reads one JSON document from standard input, asks the model service
  \<^verbatim>\<open>CropRecommendationML\<close> for predictions and prints one JSON document.
  Its function \<^verbatim>\<open>main\<close> is embedded below, statement by statement: the
  printed documents, the calls made to the model service and the exit code of the
  process are explicit results, and every \<^verbatim>\<open>raise\<close> is a value.
\<close>

subsection \<open>Python values\<close>

text \<open>
  The values that \<^verbatim>\<open>json.load\<close> produces and \<^verbatim>\<open>json.dumps\<close>
  prints. A dict is an association list read with \<open>map_of\<close>; the order of the pairs
  is the order of the keys in the printed document. The bridge never computes with a
  number: it forwards numbers and tests them against zero, so a finite float is carried
  as a real. \<^verbatim>\<open>json.load\<close> also reads the three constants \<^verbatim>\<open>NaN\<close>,
  \<^verbatim>\<open>Infinity\<close> and \<^verbatim>\<open>-Infinity\<close>, which the JSON grammar does not have,
  as the floats of those names.
\<close>

datatype nonfinite = NaN | Infinity | NegInfinity

datatype json =
    JNull
  | JBool bool
  | JInt int
  | JFloat real
  | JNonFinite nonfinite
  | JStr string
  | JArr "json list"
  | JObj "(string \<times> json) list"

text \<open>The name Python prints for the type of a value (\<^verbatim>\<open>type(v).__name__\<close>).\<close>

fun type_name :: "json \<Rightarrow> string" where
  "type_name JNull = ''NoneType''"
| "type_name (JBool b) = ''bool''"
| "type_name (JInt i) = ''int''"
| "type_name (JFloat x) = ''float''"
| "type_name (JNonFinite c) = ''float''"
| "type_name (JStr s) = ''str''"
| "type_name (JArr xs) = ''list''"
| "type_name (JObj kvs) = ''dict''"

text \<open>Python's truth value of an object, as \<^verbatim>\<open>if v:\<close> tests it.\<close>

fun truthy :: "json \<Rightarrow> bool" where
  "truthy JNull = False"
| "truthy (JBool b) = b"
| "truthy (JInt i) = (i \<noteq> 0)"
| "truthy (JFloat x) = (x \<noteq> 0)"
| "truthy (JNonFinite c) = True"
| "truthy (JStr s) = (s \<noteq> [])"
| "truthy (JArr xs) = (xs \<noteq> [])"
| "truthy (JObj kvs) = (kvs \<noteq> [])"

text \<open>A JSON number: the shape the spec gives to the seven feature fields.\<close>

fun is_number :: "json \<Rightarrow> bool" where
  "is_number (JInt i) = True"
| "is_number (JFloat x) = True"
| "is_number (JNonFinite c) = True"
| "is_number v = False"

text \<open>
  Whether a value holds a NaN. JSON has no literal for it and no JSON number reads as
  it: a parsed value that holds a NaN was read from a stream that is not valid JSON.
\<close>

fun holds_nan :: "json \<Rightarrow> bool" where
  "holds_nan (JNonFinite c) = (c = NaN)"
| "holds_nan (JArr xs) = list_ex holds_nan xs"
| "holds_nan (JObj kvs) = list_ex (\<lambda>kv. holds_nan (snd kv)) kvs"
| "holds_nan v = False"

text \<open>Reading a field of a printed document; \<open>None\<close> when the field is absent.\<close>

fun field :: "json \<Rightarrow> string \<Rightarrow> json option" where
  "field (JObj kvs) k = map_of kvs k"
| "field v k = None"

subsection \<open>Raised conditions\<close>

text \<open>
  The two handlers of \<^verbatim>\<open>main\<close> tell a \<^verbatim>\<open>FileNotFoundError\<close> from
  every other \<^verbatim>\<open>Exception\<close>; the string is \<^verbatim>\<open>str(e)\<close>.
  \<^verbatim>\<open>sys.exit\<close> raises \<^verbatim>\<open>SystemExit\<close>, which is not an
  \<^verbatim>\<open>Exception\<close> and passes both handlers: it is the third outcome of a
  statement below.
\<close>

datatype condition = FileNotFoundError string | OtherException string

datatype 'a res = Return 'a | Raise condition | SysExit int

definition quoted :: "string \<Rightarrow> string" where
  "quoted s = CHR 0x27 # s @ [CHR 0x27]"

text \<open>
  \<^verbatim>\<open>input_data.get(k, d)\<close>: the value under \<open>k\<close>, or \<open>d\<close> when the key is
  absent. Only a dict has the method; on any other value the attribute lookup raises
  \<^verbatim>\<open>AttributeError\<close>.
\<close>

fun py_get :: "json \<Rightarrow> string \<Rightarrow> json \<Rightarrow> condition + json" where
  "py_get (JObj kvs) k d = Inr (case map_of kvs k of Some v \<Rightarrow> v | None \<Rightarrow> d)"
| "py_get v k d =
     Inl (OtherException (quoted (type_name v) @ '' object has no attribute '' @ quoted ''get''))"

definition bindE :: "condition + 'a \<Rightarrow> ('a \<Rightarrow> condition + 'b) \<Rightarrow> condition + 'b" where
  "bindE m f = (case m of Inl c \<Rightarrow> Inl c | Inr x \<Rightarrow> f x)"

subsection \<open>The world outside the bridge\<close>

text \<open>
  One run of the process sees: what \<^verbatim>\<open>json.load(sys.stdin)\<close> gives (the
  message of its decode error, or the parsed value), the directory of the script, which
  paths exist, and the model service.
\<close>

text \<open>
  Modelled from the spec: the class \<^verbatim>\<open>CropRecommendationML\<close> (module
  \<^verbatim>\<open>crop_recommendation_ml\<close>) is not among the sources. Its three operations
  are parameters of the run, with the types of the spec's external collaborator
  interface: \<open>load(path)\<close> returns nothing or fails, \<open>predict(features, model_type)\<close>
  returns an ordered sequence of prediction records, \<open>feature_importance(model_identifier)\<close>
  returns an ordered sequence of (name, score) pairs. A failure is a raised condition
  derived from \<^verbatim>\<open>Exception\<close>; the operations write nothing to standard output.
  Creating the object (line 22) is logged and has no other effect.
\<close>

record env =
  json_load_stdin :: "string + json"
  script_dir :: string
  path_exists :: "string \<Rightarrow> bool"
  load_models :: "string \<Rightarrow> condition option"
  predict :: "(string \<times> json) list \<Rightarrow> json \<Rightarrow> condition + json list"
  get_feature_importance :: "string \<Rightarrow> condition + (string \<times> real) list"

datatype call =
    Construct
  | LoadModels string
  | Predict "(string \<times> json) list" json
  | GetFeatureImportance string

record world =
  stdout :: "json list"
  calls :: "call list"

definition print_json :: "json \<Rightarrow> world \<Rightarrow> world" where
  "print_json r w = w\<lparr>stdout := stdout w @ [r]\<rparr>"

definition log_call :: "call \<Rightarrow> world \<Rightarrow> world" where
  "log_call c w = w\<lparr>calls := calls w @ [c]\<rparr>"

text \<open>
  \<^verbatim>\<open>os.path.join(a, b)\<close> for two components, as \<^verbatim>\<open>posixpath\<close> does it.
  The model file is \<^verbatim>\<open>crop_ml_models.pkl\<close> in the directory of the script.
\<close>

definition os_path_join :: "string \<Rightarrow> string \<Rightarrow> string" where
  "os_path_join a b =
     (if b \<noteq> [] \<and> hd b = CHR ''/'' then b
      else if a = [] \<or> last a = CHR ''/'' then a @ b
      else a @ ''/'' @ b)"

definition model_path :: "env \<Rightarrow> string" where
  "model_path e = os_path_join (script_dir e) ''crop_ml_models.pkl''"

subsection \<open>The responses\<close>

definition missing_response :: "string \<Rightarrow> json" where
  "missing_response mp = JObj
     [(''success'', JBool False),
      (''error'', JStr (''ML model file not found at '' @ mp)),
      (''message'', JStr ''Please train the models first: python ml/crop_recommendation_ml.py train'')]"

definition not_trained_response :: json where
  "not_trained_response = JObj
     [(''success'', JBool False),
      (''error'', JStr ''ML models not trained. Please run training script first.''),
      (''message'', JStr ''Run: python ml/crop_recommendation_ml.py train'')]"

definition generic_response :: "string \<Rightarrow> json" where
  "generic_response msg = JObj [(''success'', JBool False), (''error'', JStr msg)]"

definition top_of :: "json list \<Rightarrow> json" where
  "top_of predictions = (case predictions of [] \<Rightarrow> JNull | p # ps \<Rightarrow> p)"

definition success_response :: "json list \<Rightarrow> json \<Rightarrow> json" where
  "success_response predictions feature_importance = JObj
     [(''success'', JBool True),
      (''predictions'', JArr predictions),
      (''top_recommendation'', top_of predictions),
      (''feature_importance'', feature_importance)]"

subsection \<open>main\<close>

text \<open>Lines 41 to 49: the feature dict, one \<^verbatim>\<open>get\<close> per field, in this order.\<close>

definition extract_features :: "json \<Rightarrow> condition + (string \<times> json) list" where
  "extract_features input_data =
     bindE (py_get input_data ''N'' (JInt 0)) (\<lambda>n.
     bindE (py_get input_data ''P'' (JInt 0)) (\<lambda>p.
     bindE (py_get input_data ''K'' (JInt 0)) (\<lambda>k.
     bindE (py_get input_data ''temperature'' (JInt 0)) (\<lambda>t.
     bindE (py_get input_data ''humidity'' (JInt 0)) (\<lambda>h.
     bindE (py_get input_data ''ph'' (JInt 0)) (\<lambda>ph.
     bindE (py_get input_data ''rainfall'' (JInt 0)) (\<lambda>r.
     Inr [(''N'', n), (''P'', p), (''K'', k), (''temperature'', t),
          (''humidity'', h), (''ph'', ph), (''rainfall'', r)])))))))"

text \<open>Lines 61 and 62: each pair becomes a record, the score coerced with \<^verbatim>\<open>float\<close>.\<close>

definition importance_records :: "(string \<times> real) list \<Rightarrow> json" where
  "importance_records fi =
     JArr (map (\<lambda>f. JObj [(''feature'', JStr (fst f)), (''importance'', JFloat (snd f))]) fi)"

text \<open>Lines 58 to 62: the feature importance, asked only when the flag is true in Python's sense.\<close>

definition importance_step :: "env \<Rightarrow> json \<Rightarrow> world \<Rightarrow> (condition + json) \<times> world" where
  "importance_step e flag w =
     (if truthy flag then
        (let w' = log_call (GetFeatureImportance ''random_forest'') w in
         case get_feature_importance e ''random_forest'' of
           Inl c \<Rightarrow> (Inl c, w')
         | Inr fi \<Rightarrow> (Inr (importance_records fi), w'))
      else (Inr JNull, w))"

text \<open>Lines 40 to 73: from the feature dict to the printed success response.\<close>

definition predict_and_respond :: "env \<Rightarrow> json \<Rightarrow> world \<Rightarrow> unit res \<times> world" where
  "predict_and_respond e input_data w =
     (case extract_features input_data of
        Inl c \<Rightarrow> (Raise c, w)
      | Inr features \<Rightarrow>
         (case py_get input_data ''model_type'' (JStr ''ensemble'') of
            Inl c \<Rightarrow> (Raise c, w)
          | Inr model_type \<Rightarrow>
             (let w1 = log_call (Predict features model_type) w in
              case predict e features model_type of
                Inl c \<Rightarrow> (Raise c, w1)
              | Inr predictions \<Rightarrow>
                 (case py_get input_data ''include_importance'' (JBool False) of
                    Inl c \<Rightarrow> (Raise c, w1)
                  | Inr flag \<Rightarrow>
                     (case importance_step e flag w1 of
                        (Inl c, w2) \<Rightarrow> (Raise c, w2)
                      | (Inr feature_importance, w2) \<Rightarrow>
                          (Return (), print_json (success_response predictions feature_importance) w2))))))"

text \<open>Lines 18 to 73: the body of the \<^verbatim>\<open>try\<close>.\<close>

definition try_body :: "env \<Rightarrow> world \<Rightarrow> unit res \<times> world" where
  "try_body e w =
     (case json_load_stdin e of
        Inl msg \<Rightarrow> (Raise (OtherException msg), w)
      | Inr input_data \<Rightarrow>
         (let w1 = log_call Construct w in
          if \<not> path_exists e (model_path e) then
            (SysExit 1, print_json (missing_response (model_path e)) w1)
          else
            (let w2 = log_call (LoadModels (model_path e)) w1 in
             case load_models e (model_path e) of
               Some c \<Rightarrow> (Raise c, w2)
             | None \<Rightarrow> predict_and_respond e input_data w2)))"

text \<open>Lines 75 to 91: the two handlers. Each prints its response and exits with 1.\<close>

definition handle :: "unit res \<times> world \<Rightarrow> unit res \<times> world" where
  "handle rw =
     (case rw of
        (Raise (FileNotFoundError x), w) \<Rightarrow> (SysExit 1, print_json not_trained_response w)
      | (Raise (OtherException msg), w) \<Rightarrow> (SysExit 1, print_json (generic_response msg) w)
      | (Return u, w) \<Rightarrow> (Return u, w)
      | (SysExit n, w) \<Rightarrow> (SysExit n, w))"

definition main :: "env \<Rightarrow> world \<Rightarrow> unit res \<times> world" where
  "main e w = handle (try_body e w)"

text \<open>
  The process: \<^verbatim>\<open>main()\<close> on an empty output. Returning from \<^verbatim>\<open>main\<close>
  ends the process with code 0, \<^verbatim>\<open>SystemExit(n)\<close> with code \<open>n\<close>, and an
  unhandled exception with code 1.
\<close>

record outcome =
  out :: "json list"
  delegate_calls :: "call list"
  exit_code :: int

definition run :: "env \<Rightarrow> outcome" where
  "run e =
     (case main e \<lparr>stdout = [], calls = []\<rparr> of
        (r, w) \<Rightarrow>
          \<lparr>out = stdout w, delegate_calls = calls w,
           exit_code = (case r of Return u \<Rightarrow> 0 | SysExit n \<Rightarrow> n | Raise c \<Rightarrow> 1)\<rparr>)"

text \<open>The response printed by the handler that catches a condition.\<close>

definition handler_response :: "condition \<Rightarrow> json" where
  "handler_response c =
     (case c of FileNotFoundError x \<Rightarrow> not_trained_response
      | OtherException msg \<Rightarrow> generic_response msg)"

fun is_object :: "json \<Rightarrow> bool" where
  "is_object (JObj kvs) = True"
| "is_object v = False"

definition is_success :: "json \<Rightarrow> bool" where
  "is_success r = (field r ''success'' = Some (JBool True))"

subsection \<open>Sample runs\<close>

text \<open>
  A run with the model file in place and a service that answers: the request of the
  spec's example, asking for the model type \<open>svm\<close> and for the feature importance.
\<close>

definition sample_request :: json where
  "sample_request = JObj
     [(''N'', JInt 90), (''P'', JInt 42), (''K'', JInt 43),
      (''temperature'', JFloat (104 / 5)), (''humidity'', JInt 82),
      (''ph'', JFloat (13 / 2)), (''rainfall'', JFloat (2029 / 10)),
      (''model_type'', JStr ''svm''), (''include_importance'', JBool True)]"

definition sample_predictions :: "json list" where
  "sample_predictions =
     [JObj [(''crop'', JStr ''rice''), (''confidence'', JFloat (9 / 10))],
      JObj [(''crop'', JStr ''maize''), (''confidence'', JFloat (1 / 10))]]"

definition env_ok :: env where
  "env_ok =
     \<lparr>json_load_stdin = Inr sample_request,
      script_dir = ''/app/ml'',
      path_exists = (\<lambda>p. p = ''/app/ml/crop_ml_models.pkl''),
      load_models = (\<lambda>p. None),
      predict = (\<lambda>features model_type. Inr sample_predictions),
      get_feature_importance =
        (\<lambda>m. if m = ''random_forest'' then Inr [(''rainfall'', 3 / 4), (''N'', 1 / 4)]
             else Inl (OtherException ''unknown model''))\<rparr>"

text \<open>The same world with other requests on standard input.\<close>

definition env_empty_request :: env where
  "env_empty_request = env_ok\<lparr>json_load_stdin := Inr (JObj [])\<rparr>"

definition env_wrong_shape :: env where
  "env_wrong_shape = env_ok\<lparr>json_load_stdin := Inr (JObj [(''N'', JStr ''abc'')])\<rparr>"

definition env_flag_one :: env where
  "env_flag_one = env_ok\<lparr>json_load_stdin := Inr (JObj [(''include_importance'', JInt 1)])\<rparr>"

definition env_list_request :: env where
  "env_list_request = env_ok\<lparr>json_load_stdin := Inr (JArr [JInt 1, JInt 2])\<rparr>"

definition env_bad_json :: env where
  "env_bad_json = env_ok\<lparr>json_load_stdin := Inl ''Expecting value: line 1 column 1 (char 0)''\<rparr>"

text \<open>
  Standard input \<^verbatim>\<open>{"include_importance": NaN}\<close>: not a JSON document, and read
  by \<^verbatim>\<open>json.load\<close> all the same.
\<close>

definition env_nan_request :: env where
  "env_nan_request =
     env_ok\<lparr>json_load_stdin := Inr (JObj [(''include_importance'', JNonFinite NaN)])\<rparr>"

text \<open>The same request in worlds where the model file is absent, or vanishes before the load.\<close>

definition env_missing :: env where
  "env_missing = env_ok\<lparr>path_exists := (\<lambda>p. False)\<rparr>"

definition env_not_trained :: env where
  "env_not_trained = env_ok\<lparr>load_models := (\<lambda>p. Some (FileNotFoundError p))\<rparr>"

definition env_predict_fails :: env where
  "env_predict_fails =
     env_ok\<lparr>predict := (\<lambda>features model_type. Inl (OtherException ''Models not loaded''))\<rparr>"

definition env_importance_fails :: env where
  "env_importance_fails =
     env_ok\<lparr>get_feature_importance := (\<lambda>m. Inl (OtherException ''Model random_forest not found''))\<rparr>"

section \<open>Properties of the bridge\<close>

subsection \<open>The run along each path\<close>

lemmas main_unfold = run_def main_def handle_def try_body_def predict_and_respond_def
  importance_step_def print_json_def log_call_def Let_def

lemmas path_splits = sum.splits option.splits res.splits condition.splits prod.splits
  if_splits

lemmas response_defs = missing_response_def not_trained_response_def generic_response_def
  success_response_def handler_response_def is_success_def

lemmas sample_defs = env_ok_def env_empty_request_def env_wrong_shape_def env_flag_one_def
  env_list_request_def env_bad_json_def env_nan_request_def env_missing_def env_not_trained_def
  env_predict_fails_def env_importance_fails_def
  sample_request_def sample_predictions_def model_path_def
  os_path_join_def

lemma run_decode_error:
  assumes "json_load_stdin e = Inl msg"
  shows "run e = \<lparr>out = [generic_response msg], delegate_calls = [], exit_code = 1\<rparr>"
  using assms by (simp add: main_unfold)

lemma run_file_missing:
  assumes "json_load_stdin e = Inr v" and "\<not> path_exists e (model_path e)"
  shows "run e = \<lparr>out = [missing_response (model_path e)], delegate_calls = [Construct],
                  exit_code = 1\<rparr>"
  using assms by (simp add: main_unfold)

lemma run_load_raises:
  assumes "json_load_stdin e = Inr v" and "path_exists e (model_path e)"
    and "load_models e (model_path e) = Some c"
  shows "run e = \<lparr>out = [handler_response c],
                  delegate_calls = [Construct, LoadModels (model_path e)], exit_code = 1\<rparr>"
  using assms by (cases c) (simp_all add: main_unfold handler_response_def)

lemma extract_features_object:
  "extract_features (JObj kvs) =
     Inr (map (\<lambda>k. (k, case map_of kvs k of None \<Rightarrow> JInt 0 | Some v \<Rightarrow> v))
            [''N'', ''P'', ''K'', ''temperature'', ''humidity'', ''ph'', ''rainfall''])"
  by (simp add: extract_features_def bindE_def)

lemma extract_features_not_object:
  assumes "\<not> is_object v"
  shows "extract_features v =
     Inl (OtherException (quoted (type_name v) @ '' object has no attribute '' @ quoted ''get''))"
  using assms by (cases v) (simp_all add: extract_features_def bindE_def)

lemma run_not_object:
  assumes "json_load_stdin e = Inr v" and "\<not> is_object v"
    and "path_exists e (model_path e)" and "load_models e (model_path e) = None"
  shows "run e =
     \<lparr>out = [generic_response
               (quoted (type_name v) @ '' object has no attribute '' @ quoted ''get'')],
      delegate_calls = [Construct, LoadModels (model_path e)], exit_code = 1\<rparr>"
  using assms by (simp add: main_unfold extract_features_not_object)

lemma predict_and_respond_object:
  "predict_and_respond e (JObj kvs) w =
     (let features = map (\<lambda>k. (k, case map_of kvs k of None \<Rightarrow> JInt 0 | Some v \<Rightarrow> v))
                       [''N'', ''P'', ''K'', ''temperature'', ''humidity'', ''ph'', ''rainfall''];
          model_type = (case map_of kvs ''model_type'' of None \<Rightarrow> JStr ''ensemble'' | Some v \<Rightarrow> v);
          flag = (case map_of kvs ''include_importance'' of None \<Rightarrow> JBool False | Some v \<Rightarrow> v);
          w1 = log_call (Predict features model_type) w
      in case predict e features model_type of
           Inl c \<Rightarrow> (Raise c, w1)
         | Inr predictions \<Rightarrow>
             if truthy flag then
               (let w2 = log_call (GetFeatureImportance ''random_forest'') w1 in
                case get_feature_importance e ''random_forest'' of
                  Inl c \<Rightarrow> (Raise c, w2)
                | Inr fi \<Rightarrow>
                    (Return (), print_json (success_response predictions (importance_records fi)) w2))
             else (Return (), print_json (success_response predictions JNull) w1))"
  unfolding predict_and_respond_def importance_step_def extract_features_object Let_def
  by (simp split: sum.splits)

lemma run_object:
  assumes "json_load_stdin e = Inr (JObj kvs)" and "path_exists e (model_path e)"
    and "load_models e (model_path e) = None"
  shows "run e =
     (let features = map (\<lambda>k. (k, case map_of kvs k of None \<Rightarrow> JInt 0 | Some v \<Rightarrow> v))
                       [''N'', ''P'', ''K'', ''temperature'', ''humidity'', ''ph'', ''rainfall''];
          model_type = (case map_of kvs ''model_type'' of None \<Rightarrow> JStr ''ensemble'' | Some v \<Rightarrow> v);
          flag = (case map_of kvs ''include_importance'' of None \<Rightarrow> JBool False | Some v \<Rightarrow> v);
          before = [Construct, LoadModels (model_path e), Predict features model_type]
      in case predict e features model_type of
           Inl c \<Rightarrow> \<lparr>out = [handler_response c], delegate_calls = before, exit_code = 1\<rparr>
         | Inr predictions \<Rightarrow>
             if truthy flag then
               (case get_feature_importance e ''random_forest'' of
                  Inl c \<Rightarrow>
                    \<lparr>out = [handler_response c],
                     delegate_calls = before @ [GetFeatureImportance ''random_forest''],
                     exit_code = 1\<rparr>
                | Inr fi \<Rightarrow>
                    \<lparr>out = [success_response predictions (importance_records fi)],
                     delegate_calls = before @ [GetFeatureImportance ''random_forest''],
                     exit_code = 0\<rparr>)
             else \<lparr>out = [success_response predictions JNull], delegate_calls = before,
                   exit_code = 0\<rparr>)"
proof -
  have "try_body e \<lparr>stdout = [], calls = []\<rparr> =
      predict_and_respond e (JObj kvs)
        \<lparr>stdout = [], calls = [Construct, LoadModels (model_path e)]\<rparr>"
    using assms by (simp add: try_body_def log_call_def)
  then show ?thesis
    unfolding run_def main_def predict_and_respond_object
    by (simp add: handle_def handler_response_def log_call_def print_json_def Let_def
        split: sum.split condition.split)
qed


lemma sample_path: "model_path env_ok = ''/app/ml/crop_ml_models.pkl''"
  by (simp add: env_ok_def model_path_def os_path_join_def)

text \<open>Every run follows one of five paths.\<close>

lemma run_paths:
  assumes "\<And>msg. json_load_stdin e = Inl msg \<Longrightarrow> P"
    and "\<And>v. json_load_stdin e = Inr v \<Longrightarrow> \<not> path_exists e (model_path e) \<Longrightarrow> P"
    and "\<And>v c. json_load_stdin e = Inr v \<Longrightarrow> path_exists e (model_path e) \<Longrightarrow>
           load_models e (model_path e) = Some c \<Longrightarrow> P"
    and "\<And>v. json_load_stdin e = Inr v \<Longrightarrow> \<not> is_object v \<Longrightarrow>
           path_exists e (model_path e) \<Longrightarrow> load_models e (model_path e) = None \<Longrightarrow> P"
    and "\<And>kvs. json_load_stdin e = Inr (JObj kvs) \<Longrightarrow> path_exists e (model_path e) \<Longrightarrow>
           load_models e (model_path e) = None \<Longrightarrow> P"
  shows P
proof (cases "json_load_stdin e")
  case (Inl msg)
  then show ?thesis by (rule assms(1))
next
  case (Inr v)
  show ?thesis
  proof (cases "path_exists e (model_path e)")
    case False
    with Inr show ?thesis by (rule assms(2))
  next
    case True
    show ?thesis
    proof (cases "load_models e (model_path e)")
      case (Some c)
      with Inr True show ?thesis by (rule assms(3))
    next
      case None
      show ?thesis
      proof (cases "is_object v")
        case False
        with Inr True None show ?thesis by (simp add: assms(4))
      next
        case True
        then obtain kvs where "v = JObj kvs" by (cases v) simp_all
        with Inr \<open>path_exists e (model_path e)\<close> None show ?thesis by (simp add: assms(5))
      qed
    qed
  qed
qed

lemma handler_response_fields:
  "field (handler_response c) ''success'' = Some (JBool False)"
  "field (handler_response c) ''feature_importance'' = None"
  "field (handler_response c) ''error'' =
     Some (JStr (case c of
       FileNotFoundError x \<Rightarrow> ''ML models not trained. Please run training script first.''
     | OtherException msg \<Rightarrow> msg))"
  by (cases c; simp add: handler_response_def not_trained_response_def generic_response_def)+

lemma handler_response_not_success: "\<not> is_success (handler_response c)"
  by (simp add: is_success_def handler_response_fields)

subsection \<open>The claims\<close>

text \<open>
  C1. For every request (standard input parsed) whose model file does not exist, the one
  printed response has \<open>success = false\<close>, an \<open>error\<close> field that ends with the path
  and the \<open>message\<close> field with the training hint; the exit code is 1; creating the
  service object is the only call made to it: neither \<open>load_models\<close> nor
  \<open>predict\<close> is called.
\<close>

theorem C1_missing_model_file:
  assumes "json_load_stdin e = Inr request" and "\<not> path_exists e (model_path e)"
  shows "out (run e) =
           [JObj [(''success'', JBool False),
                  (''error'', JStr (''ML model file not found at '' @ model_path e)),
                  (''message'', JStr ''Please train the models first: python ml/crop_recommendation_ml.py train'')]]
         \<and> exit_code (run e) = 1
         \<and> delegate_calls (run e) = [Construct]"
  using assms by (simp add: run_file_missing missing_response_def)

theorem C1_missing_model_file_witness:
  "json_load_stdin env_missing = Inr sample_request
   \<and> \<not> path_exists env_missing (model_path env_missing)
   \<and> out (run env_missing) =
       [JObj [(''success'', JBool False),
              (''error'', JStr ''ML model file not found at /app/ml/crop_ml_models.pkl''),
              (''message'', JStr ''Please train the models first: python ml/crop_recommendation_ml.py train'')]]
   \<and> exit_code (run env_missing) = 1
   \<and> delegate_calls (run env_missing) = [Construct]"
proof -
  have parsed: "json_load_stdin env_missing = Inr sample_request"
    by (simp add: env_missing_def env_ok_def)
  have absent: "\<not> path_exists env_missing (model_path env_missing)"
    by (simp add: env_missing_def)
  have path: "model_path env_missing = ''/app/ml/crop_ml_models.pkl''"
    by (simp add: sample_defs)
  from C1_missing_model_file [OF parsed absent] parsed absent show ?thesis
    by (simp add: path)
qed

text \<open>
  C2. In every printed success response, \<open>top_recommendation\<close> is the first element
  of \<open>predictions\<close> when that sequence is not empty, and null when it is empty.
\<close>

theorem C2_top_recommendation:
  assumes "r \<in> set (out (run e))" and "field r ''success'' = Some (JBool True)"
  shows "\<exists>ps. field r ''predictions'' = Some (JArr ps)
              \<and> field r ''top_recommendation'' = Some (case ps of [] \<Rightarrow> JNull | p # rest \<Rightarrow> p)"
  using assms
  by (auto simp: main_unfold response_defs top_of_def split: path_splits)

theorem C2_top_recommendation_witness:
  "success_response sample_predictions (importance_records [(''rainfall'', 3 / 4), (''N'', 1 / 4)])
     \<in> set (out (run env_ok))
   \<and> field (success_response sample_predictions
               (importance_records [(''rainfall'', 3 / 4), (''N'', 1 / 4)])) ''success''
       = Some (JBool True)
   \<and> field (success_response sample_predictions
               (importance_records [(''rainfall'', 3 / 4), (''N'', 1 / 4)])) ''predictions''
       = Some (JArr sample_predictions)
   \<and> field (success_response sample_predictions
               (importance_records [(''rainfall'', 3 / 4), (''N'', 1 / 4)])) ''top_recommendation''
       = Some (JObj [(''crop'', JStr ''rice''), (''confidence'', JFloat (9 / 10))])"
proof -
  let ?r = "success_response sample_predictions
      (importance_records [(''rainfall'', 3 / 4), (''N'', 1 / 4)])"
  have doc: "out (run env_ok) = [?r]"
    by (simp add: main_unfold sample_defs extract_features_object)
  have mem: "?r \<in> set (out (run env_ok))" by (simp add: doc)
  have ok: "field ?r ''success'' = Some (JBool True)" by (simp add: success_response_def)
  have preds: "field ?r ''predictions'' = Some (JArr sample_predictions)"
    by (simp add: success_response_def)
  from C2_top_recommendation [OF mem ok] preds
  have "field ?r ''top_recommendation'' =
      Some (case sample_predictions of [] \<Rightarrow> JNull | p # rest \<Rightarrow> p)"
    by auto
  with mem ok preds show ?thesis by (simp add: sample_predictions_def)
qed

text \<open>
  C3 as stated fails: a feature whose value is present but not a number is forwarded as
  it is, not as 0. The request \<open>{"N": "abc"}\<close> reaches \<open>predict\<close> with
  \<open>N = "abc"\<close>.
\<close>

theorem C3_wrong_shape_is_forwarded:
  "json_load_stdin env_wrong_shape = Inr (JObj [(''N'', JStr ''abc'')])
   \<and> \<not> is_number (JStr ''abc'')
   \<and> delegate_calls (run env_wrong_shape) =
       [Construct, LoadModels ''/app/ml/crop_ml_models.pkl'',
        Predict [(''N'', JStr ''abc''), (''P'', JInt 0), (''K'', JInt 0),
                 (''temperature'', JInt 0), (''humidity'', JInt 0), (''ph'', JInt 0),
                 (''rainfall'', JInt 0)]
                (JStr ''ensemble'')]"
  by (simp add: main_unfold sample_defs extract_features_object)

text \<open>
  C3, amended. For every request object, once the model is loaded, \<open>predict\<close> is called
  with the seven feature fields in the order N, P, K, temperature, humidity, ph,
  rainfall: a field whose key is absent from the request has the value 0, a field whose
  key is present has the request's value, whatever its shape. In particular building
  the features of the empty request \<open>{}\<close> raises nothing and gives seven zeros.
\<close>

theorem C3_features_default_when_absent:
  assumes "json_load_stdin e = Inr (JObj kvs)" and "path_exists e (model_path e)"
    and "load_models e (model_path e) = None"
  shows "take 3 (delegate_calls (run e)) =
           [Construct, LoadModels (model_path e),
            Predict (map (\<lambda>k. (k, case map_of kvs k of None \<Rightarrow> JInt 0 | Some v \<Rightarrow> v))
                       [''N'', ''P'', ''K'', ''temperature'', ''humidity'', ''ph'', ''rainfall''])
                    (case map_of kvs ''model_type'' of None \<Rightarrow> JStr ''ensemble'' | Some v \<Rightarrow> v)]
         \<and> extract_features (JObj []) =
             Inr (map (\<lambda>k. (k, JInt 0))
                    [''N'', ''P'', ''K'', ''temperature'', ''humidity'', ''ph'', ''rainfall''])"
proof -
  have "take 3 (delegate_calls (run e)) =
      [Construct, LoadModels (model_path e),
       Predict (map (\<lambda>k. (k, case map_of kvs k of None \<Rightarrow> JInt 0 | Some v \<Rightarrow> v))
                  [''N'', ''P'', ''K'', ''temperature'', ''humidity'', ''ph'', ''rainfall''])
               (case map_of kvs ''model_type'' of None \<Rightarrow> JStr ''ensemble'' | Some v \<Rightarrow> v)]"
    unfolding run_object [OF assms] Let_def by (simp split: sum.split)
  then show ?thesis by (simp add: extract_features_object)
qed

theorem C3_features_default_when_absent_witness:
  "json_load_stdin env_empty_request = Inr (JObj [])
   \<and> path_exists env_empty_request (model_path env_empty_request)
   \<and> load_models env_empty_request (model_path env_empty_request) = None
   \<and> take 3 (delegate_calls (run env_empty_request)) =
       [Construct, LoadModels ''/app/ml/crop_ml_models.pkl'',
        Predict [(''N'', JInt 0), (''P'', JInt 0), (''K'', JInt 0),
                 (''temperature'', JInt 0), (''humidity'', JInt 0), (''ph'', JInt 0),
                 (''rainfall'', JInt 0)]
                (JStr ''ensemble'')]"
proof -
  have path: "model_path env_empty_request = ''/app/ml/crop_ml_models.pkl''"
    by (simp add: sample_defs)
  have parsed: "json_load_stdin env_empty_request = Inr (JObj [])"
    by (simp add: sample_defs)
  have present: "path_exists env_empty_request (model_path env_empty_request)"
    unfolding path by (simp add: env_empty_request_def env_ok_def)
  have loaded: "load_models env_empty_request (model_path env_empty_request) = None"
    by (simp add: sample_defs)
  from C3_features_default_when_absent [OF parsed present loaded] parsed present loaded
  show ?thesis by (simp add: path)
qed

text \<open>
  C4 as stated fails: the flag is tested for Python truth, not for being the boolean
  true. The request \<open>{"include_importance": 1}\<close> gets a success response whose
  \<open>feature_importance\<close> is a list.
\<close>

theorem C4_number_one_counts_as_true:
  "json_load_stdin env_flag_one = Inr (JObj [(''include_importance'', JInt 1)])
   \<and> JInt 1 \<noteq> JBool True
   \<and> out (run env_flag_one) =
       [JObj [(''success'', JBool True),
              (''predictions'', JArr sample_predictions),
              (''top_recommendation'',
                 JObj [(''crop'', JStr ''rice''), (''confidence'', JFloat (9 / 10))]),
              (''feature_importance'',
                 JArr [JObj [(''feature'', JStr ''rainfall''), (''importance'', JFloat (3 / 4))],
                       JObj [(''feature'', JStr ''N''), (''importance'', JFloat (1 / 4))]])]]
   \<and> exit_code (run env_flag_one) = 0"
  by (simp add: main_unfold sample_defs extract_features_object response_defs top_of_def
      importance_records_def)

text \<open>
  C4, amended. The printed response has a \<open>feature_importance\<close> field that is not
  null if and only if it is the success response and the request is an object whose
  \<open>include_importance\<close> (false when absent) is true in Python's sense: the boolean
  true, a number other than zero, a non-empty string, list or object. The success
  response is printed only when no step raised, the feature importance step included.
  Every success response has the field, so it is null when the flag is not true in that
  sense.
\<close>

theorem C4_feature_importance_iff_truthy:
  assumes "r \<in> set (out (run e))"
  shows "((\<exists>fi. field r ''feature_importance'' = Some fi \<and> fi \<noteq> JNull) \<longleftrightarrow>
            (is_success r \<and>
             (\<exists>kvs. json_load_stdin e = Inr (JObj kvs) \<and>
                truthy (case map_of kvs ''include_importance'' of
                          None \<Rightarrow> JBool False | Some v \<Rightarrow> v))))
         \<and> (is_success r \<longrightarrow> field r ''feature_importance'' \<noteq> None)"
proof (rule run_paths [of e])
  fix msg assume "json_load_stdin e = Inl msg"
  with assms show ?thesis
    by (simp add: run_decode_error response_defs)
next
  fix v assume "json_load_stdin e = Inr v" "\<not> path_exists e (model_path e)"
  with assms show ?thesis
    by (simp add: run_file_missing response_defs)
next
  fix v c assume "json_load_stdin e = Inr v" "path_exists e (model_path e)"
    "load_models e (model_path e) = Some c"
  with assms show ?thesis
    by (simp add: run_load_raises handler_response_fields handler_response_not_success)
next
  fix v assume "json_load_stdin e = Inr v" "\<not> is_object v" "path_exists e (model_path e)"
    "load_models e (model_path e) = None"
  with assms show ?thesis
    by (simp add: run_not_object response_defs)
next
  fix kvs assume obj: "json_load_stdin e = Inr (JObj kvs)" "path_exists e (model_path e)"
    "load_models e (model_path e) = None"
  have shape: "importance_records fi \<noteq> JNull" for fi
    by (simp add: importance_records_def)
  from assms show ?thesis
    unfolding run_object [OF obj] Let_def
    by (auto simp: obj(1) shape handler_response_fields handler_response_not_success
        success_response_def is_success_def split: sum.splits if_splits)
qed

theorem C4_feature_importance_iff_truthy_witness:
  "success_response sample_predictions (importance_records [(''rainfall'', 3 / 4), (''N'', 1 / 4)])
     \<in> set (out (run env_flag_one))
   \<and> json_load_stdin env_flag_one = Inr (JObj [(''include_importance'', JInt 1)])
   \<and> truthy (JInt 1)
   \<and> field (success_response sample_predictions
               (importance_records [(''rainfall'', 3 / 4), (''N'', 1 / 4)])) ''feature_importance''
       = Some (JArr [JObj [(''feature'', JStr ''rainfall''), (''importance'', JFloat (3 / 4))],
                     JObj [(''feature'', JStr ''N''), (''importance'', JFloat (1 / 4))]])
   \<and> success_response sample_predictions JNull \<in> set (out (run env_empty_request))
   \<and> json_load_stdin env_empty_request = Inr (JObj [])
   \<and> is_success (success_response sample_predictions JNull)
   \<and> field (success_response sample_predictions JNull) ''feature_importance'' = Some JNull"
proof -
  let ?r1 = "success_response sample_predictions
      (importance_records [(''rainfall'', 3 / 4), (''N'', 1 / 4)])"
  let ?r2 = "success_response sample_predictions JNull"
  have m1: "?r1 \<in> set (out (run env_flag_one))"
    by (simp add: main_unfold sample_defs extract_features_object)
  have m2: "?r2 \<in> set (out (run env_empty_request))"
    by (simp add: main_unfold sample_defs extract_features_object)
  have s1: "is_success ?r1" and s2: "is_success ?r2"
    by (simp_all add: response_defs)
  have p1: "json_load_stdin env_flag_one = Inr (JObj [(''include_importance'', JInt 1)])"
    and p2: "json_load_stdin env_empty_request = Inr (JObj [])"
    by (simp_all add: sample_defs)
  from C4_feature_importance_iff_truthy [OF m1] s1 p1
  have "\<exists>fi. field ?r1 ''feature_importance'' = Some fi \<and> fi \<noteq> JNull"
    by simp
  then have a: "field ?r1 ''feature_importance'' =
      Some (JArr [JObj [(''feature'', JStr ''rainfall''), (''importance'', JFloat (3 / 4))],
                  JObj [(''feature'', JStr ''N''), (''importance'', JFloat (1 / 4))]])"
    by (simp add: success_response_def importance_records_def)
  from C4_feature_importance_iff_truthy [OF m2] s2 p2
  have b: "field ?r2 ''feature_importance'' = Some JNull"
    by auto
  from m1 m2 s2 p1 p2 a b show ?thesis by simp
qed

text \<open>
  C5. Whenever the feature importance of the service is asked for, it is asked for the
  sub-model \<open>random_forest\<close>, whatever the request's \<open>model_type\<close> is: every call of
  \<open>get_feature_importance\<close> in the log of a run has that argument.
\<close>

theorem C5_importance_of_random_forest:
  assumes "GetFeatureImportance m \<in> set (delegate_calls (run e))"
  shows "m = ''random_forest''"
proof (rule run_paths [of e])
  fix msg assume "json_load_stdin e = Inl msg"
  with assms show ?thesis by (simp add: run_decode_error)
next
  fix v assume "json_load_stdin e = Inr v" "\<not> path_exists e (model_path e)"
  with assms show ?thesis by (simp add: run_file_missing)
next
  fix v c assume "json_load_stdin e = Inr v" "path_exists e (model_path e)"
    "load_models e (model_path e) = Some c"
  with assms show ?thesis by (simp add: run_load_raises)
next
  fix v assume "json_load_stdin e = Inr v" "\<not> is_object v" "path_exists e (model_path e)"
    "load_models e (model_path e) = None"
  with assms show ?thesis by (simp add: run_not_object)
next
  fix kvs assume obj: "json_load_stdin e = Inr (JObj kvs)" "path_exists e (model_path e)"
    "load_models e (model_path e) = None"
  from assms show ?thesis
    unfolding run_object [OF obj] Let_def
    by (auto split: sum.splits if_splits)
qed

theorem C5_importance_of_random_forest_witness:
  "delegate_calls (run env_ok) =
     [Construct, LoadModels ''/app/ml/crop_ml_models.pkl'',
      Predict [(''N'', JInt 90), (''P'', JInt 42), (''K'', JInt 43),
               (''temperature'', JFloat (104 / 5)), (''humidity'', JInt 82),
               (''ph'', JFloat (13 / 2)), (''rainfall'', JFloat (2029 / 10))]
              (JStr ''svm''),
      GetFeatureImportance ''random_forest'']
   \<and> GetFeatureImportance ''random_forest'' \<in> set (delegate_calls (run env_ok))"
proof -
  have log: "delegate_calls (run env_ok) =
     [Construct, LoadModels ''/app/ml/crop_ml_models.pkl'',
      Predict [(''N'', JInt 90), (''P'', JInt 42), (''K'', JInt 43),
               (''temperature'', JFloat (104 / 5)), (''humidity'', JInt 82),
               (''ph'', JFloat (13 / 2)), (''rainfall'', JFloat (2029 / 10))]
              (JStr ''svm''),
      GetFeatureImportance ''random_forest'']"
    by (simp add: main_unfold sample_defs extract_features_object)
  then obtain m where called: "GetFeatureImportance m \<in> set (delegate_calls (run env_ok))"
    by simp
  from C5_importance_of_random_forest [OF called] called log show ?thesis
    by simp
qed

text \<open>
  C6 as stated fails: not every stream outside the JSON grammar is refused. The stream
  \<^verbatim>\<open>{"include_importance": NaN}\<close> is not valid JSON; \<open>json.load\<close> reads it as
  an object, and the run prints the success response and ends with code 0.
\<close>

theorem C6_nan_stream_is_accepted:
  "json_load_stdin env_nan_request = Inr (JObj [(''include_importance'', JNonFinite NaN)])
   \<and> holds_nan (JObj [(''include_importance'', JNonFinite NaN)])
   \<and> out (run env_nan_request) =
       [JObj [(''success'', JBool True),
              (''predictions'', JArr sample_predictions),
              (''top_recommendation'',
                 JObj [(''crop'', JStr ''rice''), (''confidence'', JFloat (9 / 10))]),
              (''feature_importance'',
                 JArr [JObj [(''feature'', JStr ''rainfall''), (''importance'', JFloat (3 / 4))],
                       JObj [(''feature'', JStr ''N''), (''importance'', JFloat (1 / 4))]])]]
   \<and> exit_code (run env_nan_request) = 0"
  by (simp add: main_unfold sample_defs extract_features_object response_defs top_of_def
      importance_records_def)

text \<open>
  C6, amended. When \<open>json.load\<close> refuses standard input and raises its decode error,
  the one printed response has \<open>success = false\<close> and an \<open>error\<close> field with the
  text of the error and no other field, so no \<open>message\<close>; the exit code is 1.
\<close>

theorem C6_malformed_json:
  assumes "json_load_stdin e = Inl msg"
  shows "out (run e) = [JObj [(''success'', JBool False), (''error'', JStr msg)]]
         \<and> field (JObj [(''success'', JBool False), (''error'', JStr msg)]) ''message'' = None
         \<and> exit_code (run e) = 1"
  using assms by (simp add: run_decode_error generic_response_def)

theorem C6_malformed_json_witness:
  "json_load_stdin env_bad_json = Inl ''Expecting value: line 1 column 1 (char 0)''
   \<and> out (run env_bad_json) =
       [JObj [(''success'', JBool False),
              (''error'', JStr ''Expecting value: line 1 column 1 (char 0)'')]]
   \<and> exit_code (run env_bad_json) = 1"
proof -
  have bad: "json_load_stdin env_bad_json = Inl ''Expecting value: line 1 column 1 (char 0)''"
    by (simp add: env_bad_json_def)
  from C6_malformed_json [OF bad] bad show ?thesis by simp
qed

text \<open>
  C7. When the model file passed the existence check and \<open>load_models\<close> raises
  \<open>FileNotFoundError\<close> all the same, the one printed response has \<open>success = false\<close>,
  the fixed \<open>error\<close> string about untrained models and the \<open>message\<close> with the
  training hint; the exit code is 1.
\<close>

theorem C7_load_raises_file_not_found:
  assumes "json_load_stdin e = Inr request" and "path_exists e (model_path e)"
    and "load_models e (model_path e) = Some (FileNotFoundError x)"
  shows "out (run e) =
           [JObj [(''success'', JBool False),
                  (''error'', JStr ''ML models not trained. Please run training script first.''),
                  (''message'', JStr ''Run: python ml/crop_recommendation_ml.py train'')]]
         \<and> exit_code (run e) = 1"
  using assms by (simp add: run_load_raises handler_response_def not_trained_response_def)

theorem C7_load_raises_file_not_found_witness:
  "json_load_stdin env_not_trained = Inr sample_request
   \<and> path_exists env_not_trained (model_path env_not_trained)
   \<and> load_models env_not_trained (model_path env_not_trained) =
       Some (FileNotFoundError ''/app/ml/crop_ml_models.pkl'')
   \<and> out (run env_not_trained) =
       [JObj [(''success'', JBool False),
              (''error'', JStr ''ML models not trained. Please run training script first.''),
              (''message'', JStr ''Run: python ml/crop_recommendation_ml.py train'')]]
   \<and> exit_code (run env_not_trained) = 1"
proof -
  have path: "model_path env_not_trained = ''/app/ml/crop_ml_models.pkl''"
    by (simp add: sample_defs)
  have parsed: "json_load_stdin env_not_trained = Inr sample_request"
    by (simp add: env_not_trained_def env_ok_def)
  have present: "path_exists env_not_trained (model_path env_not_trained)"
    unfolding path by (simp add: env_not_trained_def env_ok_def)
  have gone: "load_models env_not_trained (model_path env_not_trained) =
      Some (FileNotFoundError ''/app/ml/crop_ml_models.pkl'')"
    unfolding path by (simp add: env_not_trained_def)
  from C7_load_raises_file_not_found [OF parsed present gone] parsed present gone
  show ?thesis by simp
qed

text \<open>
  C8. Every run prints exactly one JSON document, whatever standard input holds, whether
  the model file exists or not, and whether the service answers or raises: standard
  output, which receives nothing but the responses that \<open>main\<close> prints, holds one
  document at the end. No run prints an error response and a second document.
\<close>

theorem C8_exactly_one_document:
  "length (out (run e)) = 1"
proof (rule run_paths [of e])
  fix msg assume "json_load_stdin e = Inl msg"
  then show ?thesis by (simp add: run_decode_error)
next
  fix v assume "json_load_stdin e = Inr v" "\<not> path_exists e (model_path e)"
  then show ?thesis by (simp add: run_file_missing)
next
  fix v c assume "json_load_stdin e = Inr v" "path_exists e (model_path e)"
    "load_models e (model_path e) = Some c"
  then show ?thesis by (simp add: run_load_raises)
next
  fix v assume "json_load_stdin e = Inr v" "\<not> is_object v" "path_exists e (model_path e)"
    "load_models e (model_path e) = None"
  then show ?thesis by (simp add: run_not_object)
next
  fix kvs assume obj: "json_load_stdin e = Inr (JObj kvs)" "path_exists e (model_path e)"
    "load_models e (model_path e) = None"
  show ?thesis
    unfolding run_object [OF obj] Let_def
    by (simp split: sum.split)
qed

theorem C8_exactly_one_document_witness:
  "length (out (run env_predict_fails)) = 1
   \<and> out (run env_predict_fails) =
       [JObj [(''success'', JBool False), (''error'', JStr ''Models not loaded'')]]"
proof -
  have "out (run env_predict_fails) =
      [JObj [(''success'', JBool False), (''error'', JStr ''Models not loaded'')]]"
    by (simp add: main_unfold sample_defs extract_features_object generic_response_def)
  with C8_exactly_one_document [of env_predict_fails] show ?thesis by simp
qed

text \<open>
  C9. The exit code of every run is 0 when the printed response is the success response
  and 1 otherwise. It is 1 in particular when the model file is absent, when
  \<open>load_models\<close> raises (the model-not-trained condition or any other), and when a
  call of \<open>predict\<close> or of \<open>get_feature_importance\<close> that the run made raised.
\<close>

theorem C9_exit_code:
  "exit_code (run e) = (if list_ex is_success (out (run e)) then 0 else 1)
   \<and> (\<not> path_exists e (model_path e) \<longrightarrow> exit_code (run e) = 1)
   \<and> (load_models e (model_path e) \<noteq> None \<longrightarrow> exit_code (run e) = 1)
   \<and> (\<forall>features model_type. Predict features model_type \<in> set (delegate_calls (run e)) \<longrightarrow>
         isl (predict e features model_type) \<longrightarrow> exit_code (run e) = 1)
   \<and> (\<forall>m. GetFeatureImportance m \<in> set (delegate_calls (run e)) \<longrightarrow>
         isl (get_feature_importance e m) \<longrightarrow> exit_code (run e) = 1)"
proof (rule run_paths [of e])
  fix msg assume "json_load_stdin e = Inl msg"
  then show ?thesis by (simp add: run_decode_error response_defs)
next
  fix v assume "json_load_stdin e = Inr v" "\<not> path_exists e (model_path e)"
  then show ?thesis by (simp add: run_file_missing response_defs)
next
  fix v c assume "json_load_stdin e = Inr v" "path_exists e (model_path e)"
    "load_models e (model_path e) = Some c"
  then show ?thesis by (simp add: run_load_raises handler_response_not_success)
next
  fix v assume "json_load_stdin e = Inr v" "\<not> is_object v" "path_exists e (model_path e)"
    "load_models e (model_path e) = None"
  then show ?thesis by (simp add: run_not_object response_defs)
next
  fix kvs assume obj: "json_load_stdin e = Inr (JObj kvs)" "path_exists e (model_path e)"
    "load_models e (model_path e) = None"
  have ok: "is_success (success_response ps fi)" for ps fi
    by (simp add: is_success_def success_response_def)
  show ?thesis
    unfolding run_object [OF obj] Let_def
    by (auto simp: obj ok handler_response_not_success split: sum.splits)
qed

theorem C9_exit_code_witness:
  "list_ex is_success (out (run env_ok)) \<and> exit_code (run env_ok) = 0
   \<and> \<not> path_exists env_missing (model_path env_missing) \<and> exit_code (run env_missing) = 1
   \<and> load_models env_not_trained (model_path env_not_trained) \<noteq> None
   \<and> exit_code (run env_not_trained) = 1
   \<and> Predict [(''N'', JInt 90), (''P'', JInt 42), (''K'', JInt 43),
               (''temperature'', JFloat (104 / 5)), (''humidity'', JInt 82),
               (''ph'', JFloat (13 / 2)), (''rainfall'', JFloat (2029 / 10))] (JStr ''svm'')
       \<in> set (delegate_calls (run env_predict_fails))
   \<and> isl (predict env_predict_fails
              [(''N'', JInt 90), (''P'', JInt 42), (''K'', JInt 43),
               (''temperature'', JFloat (104 / 5)), (''humidity'', JInt 82),
               (''ph'', JFloat (13 / 2)), (''rainfall'', JFloat (2029 / 10))] (JStr ''svm''))
   \<and> exit_code (run env_predict_fails) = 1
   \<and> GetFeatureImportance ''random_forest'' \<in> set (delegate_calls (run env_importance_fails))
   \<and> isl (get_feature_importance env_importance_fails ''random_forest'')
   \<and> exit_code (run env_importance_fails) = 1"
proof -
  let ?features = "[(''N'', JInt 90), (''P'', JInt 42), (''K'', JInt 43),
      (''temperature'', JFloat (104 / 5)), (''humidity'', JInt 82),
      (''ph'', JFloat (13 / 2)), (''rainfall'', JFloat (2029 / 10))]"
  have ok: "list_ex is_success (out (run env_ok))"
    by (simp add: main_unfold sample_defs extract_features_object response_defs)
  have absent: "\<not> path_exists env_missing (model_path env_missing)"
    by (simp add: env_missing_def)
  have gone: "load_models env_not_trained (model_path env_not_trained) \<noteq> None"
    by (simp add: env_not_trained_def)
  have called: "Predict ?features (JStr ''svm'') \<in> set (delegate_calls (run env_predict_fails))"
    by (simp add: main_unfold sample_defs extract_features_object)
  have raised: "isl (predict env_predict_fails ?features (JStr ''svm''))"
    by (simp add: env_predict_fails_def)
  have asked: "GetFeatureImportance ''random_forest'' \<in> set (delegate_calls (run env_importance_fails))"
    by (simp add: main_unfold sample_defs extract_features_object)
  have refused: "isl (get_feature_importance env_importance_fails ''random_forest'')"
    by (simp add: env_importance_fails_def)
  from C9_exit_code [of env_ok] ok have e1: "exit_code (run env_ok) = 0"
    by simp
  from C9_exit_code [of env_missing] absent have e2: "exit_code (run env_missing) = 1"
    by blast
  from C9_exit_code [of env_not_trained] gone have e3: "exit_code (run env_not_trained) = 1"
    by blast
  from C9_exit_code [of env_predict_fails] called raised
  have e4: "exit_code (run env_predict_fails) = 1"
    by blast
  from C9_exit_code [of env_importance_fails] asked refused
  have e5: "exit_code (run env_importance_fails) = 1"
    by blast
  from ok absent gone called raised asked refused e1 e2 e3 e4 e5 show ?thesis
    by simp
qed

text \<open>
  C10. When standard input is valid JSON but not an object (a list, a string, a number,
  a boolean, null), the run prints one response, with \<open>success = false\<close> and an
  \<open>error\<close> string, exits with 1 and never calls \<open>predict\<close>. Once the model is
  loaded, the response is the one of the generic handler: building the features raises
  \<open>AttributeError\<close>, the value having no method \<open>get\<close>, and the error text names the
  type of the value.
\<close>

theorem C10_request_not_an_object:
  assumes "json_load_stdin e = Inr v" and "\<not> is_object v"
  shows "(\<exists>r msg. out (run e) = [r] \<and> field r ''success'' = Some (JBool False)
                  \<and> field r ''error'' = Some (JStr msg))
         \<and> exit_code (run e) = 1
         \<and> (\<forall>features model_type. Predict features model_type \<notin> set (delegate_calls (run e)))
         \<and> (path_exists e (model_path e) \<and> load_models e (model_path e) = None \<longrightarrow>
              out (run e) =
                [JObj [(''success'', JBool False),
                       (''error'', JStr (quoted (type_name v) @ '' object has no attribute ''
                                         @ quoted ''get''))]])"
proof (cases "path_exists e (model_path e)")
  case False
  with assms show ?thesis
    by (simp add: run_file_missing missing_response_def)
next
  case True
  show ?thesis
  proof (cases "load_models e (model_path e)")
    case (Some c)
    with assms True show ?thesis
      by (simp add: run_load_raises handler_response_fields)
  next
    case None
    with assms True show ?thesis
      by (simp add: run_not_object generic_response_def)
  qed
qed

theorem C10_request_not_an_object_witness:
  "json_load_stdin env_list_request = Inr (JArr [JInt 1, JInt 2])
   \<and> \<not> is_object (JArr [JInt 1, JInt 2])
   \<and> out (run env_list_request) =
       [JObj [(''success'', JBool False),
              (''error'', JStr (CHR 0x27 # ''list'' @ CHR 0x27 # '' object has no attribute ''
                                @ CHR 0x27 # ''get'' @ [CHR 0x27]))]]
   \<and> exit_code (run env_list_request) = 1"
proof -
  have path: "model_path env_list_request = ''/app/ml/crop_ml_models.pkl''"
    by (simp add: sample_defs)
  have parsed: "json_load_stdin env_list_request = Inr (JArr [JInt 1, JInt 2])"
    by (simp add: env_list_request_def)
  have shape: "\<not> is_object (JArr [JInt 1, JInt 2])"
    by simp
  have present: "path_exists env_list_request (model_path env_list_request)"
    unfolding path by (simp add: env_list_request_def env_ok_def)
  have loaded: "load_models env_list_request (model_path env_list_request) = None"
    by (simp add: env_list_request_def env_ok_def)
  from C10_request_not_an_object [OF parsed shape] parsed shape present loaded
  show ?thesis by (simp add: quoted_def)
qed

end
